theory Spec2Isabelle
  imports Complex_Main
begin

section \<open>Flat vector index with a metadata side file (embeddings\_faiss.py)\<close>

text \<open>
  The script has two modes. In mode \<open>index\<close> it reads a payload of chunks, builds a flat
  L2 index from their embeddings, writes it to \<open>faiss.index\<close> and writes the chunks'
  text, metadata and context to \<open>meta.json\<close>. In mode \<open>query\<close> it reads both files,
  searches the index and prints the metadata entries at the positions found.

  The script is modelled statement by statement. An uncaught Python exception is a value
  of type \<open>error\<close> (the script catches none, so the class of the exception is what the
  caller sees); the two files are entries of an explicit file system that the index mode
  returns updated. Embeddings arrive as the numbers of the JSON document and are cast to
  single precision as the script does; the index stores single-precision values and the
  distances are computed in single precision.

  numpy, faiss, json and the Python built-ins are not part of the script. Each call the
  script makes is modelled by what the library does on the arguments the script passes.
\<close>

subsection \<open>Values, exceptions, documents\<close>

datatype json =
    JNull
  | JBool bool
  | JInt int
  | JFloat real
  | JStr string
  | JList "json list"
  | JDict "(string \<times> json) list"

datatype error =
    KeyError
  | IndexError
  | ValueError
  | AssertionError
  | RuntimeError
  | FileNotFoundError
  | IsADirectoryError

text \<open>
  A chunk of the payload and the query document are dicts read with fixed keys. A field
  is \<open>None\<close> when the key is absent; an embedding that is present is a list of finite
  numbers, the values of the Python floats that \<open>json.load\<close> returns, and \<open>k\<close> is an
  integer.
\<close>

record chunk =
  embedding :: "real list option"
  "text" :: "json option"
  metadata :: "json option"
  "context" :: "json option"

record payload =
  chunks :: "chunk list option"

record query_doc =
  q_embedding :: "real list option"
  q_k :: "int option"
  q_context :: "json option"

subsection \<open>Python built-ins\<close>

text \<open>\<open>d[key]\<close> on a dict: \<open>KeyError\<close> when the key is absent.\<close>

definition dict_get :: "'a option \<Rightarrow> error + 'a" where
  "dict_get v = (case v of None \<Rightarrow> Inl KeyError | Some x \<Rightarrow> Inr x)"

text \<open>
  \<open>xs[i]\<close> on a list or tuple: a negative index counts from the end, and the index is
  out of range when it is not in \<open>-len(xs) .. len(xs) - 1\<close>.
\<close>

definition py_getitem :: "'a list \<Rightarrow> int \<Rightarrow> error + 'a" where
  "py_getitem xs i =
     (let n = int (length xs); j = (if i < 0 then i + n else i)
      in if 0 \<le> j \<and> j < n then Inr (xs ! nat j) else Inl IndexError)"

text \<open>
  A list comprehension \<open>[f(c) for c in cs]\<close>: the elements are computed from left to
  right and the first exception ends it.
\<close>

fun comprehension :: "('a \<Rightarrow> error + 'b) \<Rightarrow> 'a list \<Rightarrow> error + 'b list" where
  "comprehension f [] = Inr []"
| "comprehension f (c # cs) =
     (case f c of
        Inl e \<Rightarrow> Inl e
      | Inr y \<Rightarrow> (case comprehension f cs of Inl e \<Rightarrow> Inl e | Inr ys \<Rightarrow> Inr (y # ys)))"

text \<open>\<open>os.path.join(a, b)\<close> for two components (POSIX).\<close>

definition os_path_join :: "string \<Rightarrow> string \<Rightarrow> string" where
  "os_path_join a b =
     (if take 1 b = ''/'' then b
      else if a = [] then b
      else if last a = CHR ''/'' then a @ b
      else a @ ''/'' @ b)"

subsection \<open>Single-precision numbers\<close>

text \<open>
  A single-precision value is a finite number, an infinity or a NaN. The finite values
  of binary exponent \<open>e\<close>, for \<open>-126 \<le> e \<le> 127\<close>, are the multiples of
  \<open>2 ^ (e - 23)\<close> with magnitude below \<open>2 ^ (e + 1)\<close>; the largest finite value is
  \<open>FLT_MAX\<close>. The sign of zero is not modelled.
\<close>

datatype float32 = Finite real | PInf | NInf | NaN

definition FLT_MAX :: real where
  "FLT_MAX = (2 ^ 24 - 1) * 2 ^ 104"

definition pow2 :: "int \<Rightarrow> real" where
  "pow2 e = (if 0 \<le> e then 2 ^ nat e else 1 / 2 ^ nat (- e))"

text \<open>
  The binary exponent of a positive number \<open>a\<close>, the \<open>e\<close> with
  \<open>2 ^ e \<le> a < 2 ^ (e + 1)\<close>, found by halving or doubling at most \<open>n\<close> times; the
  exponents of single precision are well within 300 steps.
\<close>

fun binary_exponent :: "nat \<Rightarrow> real \<Rightarrow> int \<Rightarrow> int" where
  "binary_exponent 0 a e = e"
| "binary_exponent (Suc n) a e =
     (if 2 \<le> a then binary_exponent n (a / 2) (e + 1)
      else if a < 1 then binary_exponent n (2 * a) (e - 1)
      else e)"

text \<open>
  The spacing of the single-precision values around a positive number: \<open>2 ^ (e - 23)\<close>
  for its binary exponent \<open>e\<close>, and \<open>2 ^ (- 149)\<close> below the smallest normal number.
\<close>

definition f32_spacing :: "real \<Rightarrow> real" where
  "f32_spacing a = pow2 (max (binary_exponent 300 a 0) (- 126) - 23)"

text \<open>The nearest integer, a tie going to the even one.\<close>

definition round_half_even :: "real \<Rightarrow> int" where
  "round_half_even x =
     (if x - of_int \<lfloor>x\<rfloor> < 1 / 2 then \<lfloor>x\<rfloor>
      else if 1 / 2 < x - of_int \<lfloor>x\<rfloor> then \<lfloor>x\<rfloor> + 1
      else if even \<lfloor>x\<rfloor> then \<lfloor>x\<rfloor> else \<lfloor>x\<rfloor> + 1)"

text \<open>The multiple of the spacing nearest to a positive number.\<close>

definition f32_nearest :: "real \<Rightarrow> real" where
  "f32_nearest a = of_int (round_half_even (a / f32_spacing a)) * f32_spacing a"

text \<open>
  Rounding a number to single precision (to nearest, ties to even). A magnitude that
  rounds to more than \<open>FLT_MAX\<close> gives an infinity.
\<close>

definition f32_round :: "real \<Rightarrow> float32" where
  "f32_round x =
     (if x = 0 then Finite 0
      else if x < 0 then
        (if FLT_MAX < f32_nearest (- x) then NInf else Finite (- f32_nearest (- x)))
      else
        (if FLT_MAX < f32_nearest x then PInf else Finite (f32_nearest x)))"

text \<open>Negation, addition, subtraction and multiplication, each rounded once.\<close>

fun fneg :: "float32 \<Rightarrow> float32" where
  "fneg (Finite a) = Finite (- a)"
| "fneg PInf = NInf"
| "fneg NInf = PInf"
| "fneg NaN = NaN"

fun fadd :: "float32 \<Rightarrow> float32 \<Rightarrow> float32" where
  "fadd (Finite a) (Finite b) = f32_round (a + b)"
| "fadd NaN y = NaN"
| "fadd x NaN = NaN"
| "fadd PInf NInf = NaN"
| "fadd NInf PInf = NaN"
| "fadd PInf y = PInf"
| "fadd NInf y = NInf"
| "fadd (Finite a) y = y"

definition fsub :: "float32 \<Rightarrow> float32 \<Rightarrow> float32" where
  "fsub x y = fadd x (fneg y)"

fun fmul :: "float32 \<Rightarrow> float32 \<Rightarrow> float32" where
  "fmul (Finite a) (Finite b) = f32_round (a * b)"
| "fmul NaN y = NaN"
| "fmul x NaN = NaN"
| "fmul (Finite a) y = (if a = 0 then NaN else if 0 < a then y else fneg y)"
| "fmul x (Finite b) = (if b = 0 then NaN else if 0 < b then x else fneg x)"
| "fmul PInf y = y"
| "fmul NInf y = fneg y"

text \<open>The number held by a finite value.\<close>

fun f32_val :: "float32 \<Rightarrow> real" where
  "f32_val (Finite a) = a"
| "f32_val PInf = 0"
| "f32_val NInf = 0"
| "f32_val NaN = 0"

subsection \<open>numpy\<close>

text \<open>
  \<open>np.array(L)\<close> for a list \<open>L\<close> of lists of numbers. The empty list gives a
  one-dimensional array of shape \<open>(0,)\<close>, lists of one common length \<open>m\<close> give an array
  of shape \<open>(len(L), m)\<close>, and lists of different lengths are refused with
  \<open>ValueError\<close>.
\<close>

record 'a ndarray =
  shape :: "nat list"
  rows :: "'a list list"

definition np_array :: "real list list \<Rightarrow> error + real ndarray" where
  "np_array L =
     (case L of
        [] \<Rightarrow> Inr \<lparr>shape = [0], rows = []\<rparr>
      | v # _ \<Rightarrow>
          if list_all (\<lambda>w. length w = length v) L
          then Inr \<lparr>shape = [length L, length v], rows = L\<rparr>
          else Inl ValueError)"

text \<open>\<open>a.astype("float32")\<close>: every element is rounded to single precision.\<close>

definition astype_float32 :: "real ndarray \<Rightarrow> float32 ndarray" where
  "astype_float32 a = \<lparr>shape = shape a, rows = map (map f32_round) (rows a)\<rparr>"

subsection \<open>faiss: the flat L2 index\<close>

text \<open>
  The index holds its dimension \<open>d\<close> and the vectors added so far, in the order they were
  added; \<open>ntotal\<close> is their number.
\<close>

record flat_index =
  ix_d :: nat
  ix_xb :: "float32 list list"

definition IndexFlatL2 :: "nat \<Rightarrow> flat_index" where
  "IndexFlatL2 dimn = \<lparr>ix_d = dimn, ix_xb = []\<rparr>"

definition ntotal :: "flat_index \<Rightarrow> nat" where
  "ntotal ix = length (ix_xb ix)"

text \<open>
  \<open>index.add(x)\<close>: the wrapper unpacks \<open>n, d = x.shape\<close> (a \<open>ValueError\<close> unless the
  array is two-dimensional), asserts \<open>d == self.d\<close> and appends the rows.
\<close>

definition index_add :: "flat_index \<Rightarrow> float32 ndarray \<Rightarrow> error + flat_index" where
  "index_add ix x =
     (case shape x of
        [n, d] \<Rightarrow>
          if d = ix_d ix then Inr (ix\<lparr>ix_xb := ix_xb ix @ rows x\<rparr>)
          else Inl AssertionError
      | _ \<Rightarrow> Inl ValueError)"

text \<open>
  The squared Euclidean distance of two vectors in single precision: the loop
  \<open>tmp = x[i] - y[i]; res += tmp * tmp\<close>, every operation rounded. (A vectorised build
  of the library may add the squares in another order or fuse a multiplication with an
  addition; the last bit of a distance may then differ.)
\<close>

definition fvec_L2sqr :: "float32 list \<Rightarrow> float32 list \<Rightarrow> float32" where
  "fvec_L2sqr x y =
     foldl (\<lambda>res (a, b). fadd res (fmul (fsub a b) (fsub a b))) (Finite 0) (zip x y)"

text \<open>
  The search keeps a vector only if its distance compares below the distance
  \<open>FLT_MAX\<close> that an empty result slot holds: a distance that is \<open>FLT_MAX\<close>, infinite
  or NaN is never kept.
\<close>

fun admitted :: "float32 \<Rightarrow> bool" where
  "admitted (Finite a) = (a < FLT_MAX)"
| "admitted PInf = False"
| "admitted NInf = False"
| "admitted NaN = False"

text \<open>
  One row of a search result: every stored vector is compared with the query (an
  exhaustive scan), and of the vectors kept the \<open>k\<close> nearest are returned as
  (label, distance) pairs in ascending order of distance, the label being the position of
  the vector in the index. When fewer than \<open>k\<close> vectors are kept the row is filled up to
  length \<open>k\<close> with the label \<open>-1\<close> and the distance \<open>FLT_MAX\<close>. The library does not
  fix the order of vectors at equal distance; the model returns them in the order of
  their positions, and no property below depends on that choice.
\<close>

definition candidates :: "float32 list list \<Rightarrow> float32 list \<Rightarrow> (int \<times> float32) list" where
  "candidates xb q = zip (map int [0..<length xb]) (map (fvec_L2sqr q) xb)"

definition kept :: "float32 list list \<Rightarrow> float32 list \<Rightarrow> (int \<times> float32) list" where
  "kept xb q = filter (\<lambda>c. admitted (snd c)) (candidates xb q)"

definition knn_row ::
  "float32 list list \<Rightarrow> nat \<Rightarrow> float32 list \<Rightarrow> (int \<times> float32) list" where
  "knn_row xb k q =
     (let top = take k (sort_key (\<lambda>c. f32_val (snd c)) (kept xb q))
      in top @ replicate (k - length top) (- 1, Finite FLT_MAX))"

text \<open>
  \<open>D, I = index.search(x, k)\<close>: the wrapper unpacks \<open>n, d = x.shape\<close>, asserts
  \<open>d == self.d\<close> and \<open>k > 0\<close>, builds the arrays \<open>D\<close> and \<open>I\<close> of shape \<open>(n, k)\<close>
  and returns in them the distances and the labels, one row for each row of \<open>x\<close>. numpy
  refuses an array of \<open>2\<^sup>6\<^sup>3\<close> bytes or more with \<open>ValueError\<close>, and a row of \<open>k\<close>
  labels has \<open>8k\<close> bytes. For smaller \<open>k\<close> the memory for the two arrays is taken to
  suffice.
\<close>

definition index_search ::
  "flat_index \<Rightarrow> float32 ndarray \<Rightarrow> int \<Rightarrow> error + (float32 list list \<times> int list list)"
  where
  "index_search ix x k =
     (case shape x of
        [n, d] \<Rightarrow>
          if d = ix_d ix then
            if 0 < k then
              if k < 2 ^ 60 then
                Inr (map (\<lambda>q. map snd (knn_row (ix_xb ix) (nat k) q)) (rows x),
                     map (\<lambda>q. map fst (knn_row (ix_xb ix) (nat k) q)) (rows x))
              else Inl ValueError
            else Inl AssertionError
          else Inl AssertionError
      | _ \<Rightarrow> Inl ValueError)"

subsection \<open>The two persisted files\<close>

text \<open>
  A path holds what was written to it, an index or a JSON array, or it is a directory.
  A file is written in place: the path is opened for writing and the new content
  replaces the old. A path that is a directory cannot be opened for writing: faiss fails
  with \<open>RuntimeError\<close>, \<open>open(p, "w")\<close> with \<open>IsADirectoryError\<close>, and the file system
  stays as it is. Reading an index from a path that holds none fails with
  \<open>RuntimeError\<close>; \<open>json.load(open(p))\<close> fails with \<open>FileNotFoundError\<close> when there is
  no file and with a \<open>ValueError\<close> when the file is not JSON. Other failures of the file
  system (a missing or read-only directory, a full disk in the middle of a write) are
  not modelled.
\<close>

datatype file_content = IndexFile flat_index | JsonFile "json list" | Directory

type_synonym fs = "string \<Rightarrow> file_content option"

definition write_index :: "flat_index \<Rightarrow> string \<Rightarrow> fs \<Rightarrow> error + fs" where
  "write_index ix p files =
     (case files p of
        Some Directory \<Rightarrow> Inl RuntimeError
      | _ \<Rightarrow> Inr (files(p \<mapsto> IndexFile ix)))"

definition read_index :: "string \<Rightarrow> fs \<Rightarrow> error + flat_index" where
  "read_index p files =
     (case files p of
        None \<Rightarrow> Inl RuntimeError
      | Some (IndexFile ix) \<Rightarrow> Inr ix
      | Some (JsonFile _) \<Rightarrow> Inl RuntimeError
      | Some Directory \<Rightarrow> Inl RuntimeError)"

definition json_dump :: "json list \<Rightarrow> string \<Rightarrow> fs \<Rightarrow> error + fs" where
  "json_dump meta p files =
     (case files p of
        Some Directory \<Rightarrow> Inl IsADirectoryError
      | _ \<Rightarrow> Inr (files(p \<mapsto> JsonFile meta)))"

definition json_load :: "string \<Rightarrow> fs \<Rightarrow> error + json list" where
  "json_load p files =
     (case files p of
        None \<Rightarrow> Inl FileNotFoundError
      | Some (JsonFile meta) \<Rightarrow> Inr meta
      | Some (IndexFile _) \<Rightarrow> Inl ValueError
      | Some Directory \<Rightarrow> Inl IsADirectoryError)"

definition index_file :: "string \<Rightarrow> string" where
  "index_file index_dir = os_path_join index_dir ''faiss.index''"

definition meta_file :: "string \<Rightarrow> string" where
  "meta_file index_dir = os_path_join index_dir ''meta.json''"

subsection \<open>Mode \<open>index\<close>\<close>

text \<open>The dict stored for one chunk.\<close>

definition meta_entry :: "chunk \<Rightarrow> error + json" where
  "meta_entry c =
     (case dict_get (text c) of
        Inl e \<Rightarrow> Inl e
      | Inr t \<Rightarrow>
     (case dict_get (metadata c) of
        Inl e \<Rightarrow> Inl e
      | Inr m \<Rightarrow>
     (case dict_get (context c) of
        Inl e \<Rightarrow> Inl e
      | Inr x \<Rightarrow> Inr (JDict [(''text'', t), (''metadata'', m), (''context'', x)]))))"

text \<open>
  The result is the number printed in \<open>Indexed n chunks.\<close> or the exception, together
  with the file system the run leaves behind.
\<close>

definition index_mode :: "payload \<Rightarrow> string \<Rightarrow> fs \<Rightarrow> (error + nat) \<times> fs" where
  "index_mode data index_dir files =
     (case dict_get (chunks data) of
        Inl e \<Rightarrow> (Inl e, files)
      | Inr cs \<Rightarrow>
     (case comprehension (\<lambda>c. dict_get (embedding c)) cs of
        Inl e \<Rightarrow> (Inl e, files)
      | Inr es \<Rightarrow>
     (case np_array es of
        Inl e \<Rightarrow> (Inl e, files)
      | Inr a \<Rightarrow>
     (let embeddings = astype_float32 a in
     (case py_getitem (shape embeddings) 1 of
        Inl e \<Rightarrow> (Inl e, files)
      | Inr dimn \<Rightarrow>
     (case index_add (IndexFlatL2 dimn) embeddings of
        Inl e \<Rightarrow> (Inl e, files)
      | Inr index \<Rightarrow>
     (case write_index index (index_file index_dir) files of
        Inl e \<Rightarrow> (Inl e, files)
      | Inr files1 \<Rightarrow>
     (case comprehension meta_entry cs of
        Inl e \<Rightarrow> (Inl e, files1)
      | Inr meta \<Rightarrow>
     (case json_dump meta (meta_file index_dir) files1 of
        Inl e \<Rightarrow> (Inl e, files1)
      | Inr files2 \<Rightarrow> (Inr (length cs), files2))))))))))"

subsection \<open>Mode \<open>query\<close>\<close>

text \<open>The result is the list printed by \<open>json.dumps(results)\<close>, or the exception.\<close>

definition query_mode :: "query_doc \<Rightarrow> string \<Rightarrow> fs \<Rightarrow> error + json list" where
  "query_mode query_json index_dir files =
     (case dict_get (q_embedding query_json) of
        Inl e \<Rightarrow> Inl e
      | Inr emb \<Rightarrow>
     (case np_array [emb] of
        Inl e \<Rightarrow> Inl e
      | Inr a \<Rightarrow>
     (let q_emb = astype_float32 a in
     (case dict_get (q_k query_json) of
        Inl e \<Rightarrow> Inl e
      | Inr k \<Rightarrow>
     (case dict_get (q_context query_json) of
        Inl e \<Rightarrow> Inl e
      | Inr ctx \<Rightarrow>
     (case read_index (index_file index_dir) files of
        Inl e \<Rightarrow> Inl e
      | Inr index \<Rightarrow>
     (case index_search index q_emb k of
        Inl e \<Rightarrow> Inl e
      | Inr (D, I) \<Rightarrow>
     (case json_load (meta_file index_dir) files of
        Inl e \<Rightarrow> Inl e
      | Inr meta \<Rightarrow>
     (case py_getitem I 0 of
        Inl e \<Rightarrow> Inl e
      | Inr I0 \<Rightarrow> comprehension (py_getitem meta) I0)))))))))"

subsection \<open>Example inputs\<close>

text \<open>
  The chunks of the end-to-end scenario: embeddings \<open>[1,0]\<close>, \<open>[0,1]\<close>, \<open>[5,5]\<close> with
  the texts \<open>a\<close>, \<open>b\<close>, \<open>c\<close>, an empty metadata mapping and the context \<open>null\<close>; the
  entry that the index mode stores for such a chunk; and the directory \<open>idx\<close> after
  these chunks have been indexed into an empty file system.
\<close>

definition example_chunk :: "real list \<Rightarrow> string \<Rightarrow> chunk" where
  "example_chunk e t =
     \<lparr>embedding = Some e, text = Some (JStr t), metadata = Some (JDict []),
      context = Some JNull\<rparr>"

definition example_entry :: "string \<Rightarrow> json" where
  "example_entry t = JDict [(''text'', JStr t), (''metadata'', JDict []), (''context'', JNull)]"

definition three_chunks :: payload where
  "three_chunks =
     \<lparr>chunks = Some [example_chunk [1, 0] ''a'', example_chunk [0, 1] ''b'',
                     example_chunk [5, 5] ''c'']\<rparr>"

definition three_store :: fs where
  "three_store = snd (index_mode three_chunks ''idx'' Map.empty)"

text \<open>
  A payload whose only chunk has no text, and a payload whose two embeddings have
  different lengths.
\<close>

definition untexted_chunk :: payload where
  "untexted_chunk =
     \<lparr>chunks = Some [\<lparr>embedding = Some [0, 1], text = None, metadata = Some (JDict []),
                      context = Some JNull\<rparr>]\<rparr>"

definition ragged_chunks :: payload where
  "ragged_chunks = \<lparr>chunks = Some [example_chunk [1, 0] ''a'', example_chunk [1] ''b'']\<rparr>"

text \<open>
  A payload whose first embedding is so large that its squared distance from the origin
  exceeds \<open>FLT_MAX\<close>.
\<close>

definition overflow_chunks :: payload where
  "overflow_chunks =
     \<lparr>chunks = Some [example_chunk [100000000000000000000] ''a'', example_chunk [1] ''b'']\<rparr>"

text \<open>
  A directory whose index has more vectors than \<open>meta.json\<close> has entries: one chunk is
  indexed, then a batch of three whose last chunk has no text, so that the second run
  fails after it has written the index.
\<close>

definition short_meta_store :: fs where
  "short_meta_store =
     snd (index_mode
            \<lparr>chunks = Some [example_chunk [1, 0] ''a'', example_chunk [0, 1] ''b'',
                            \<lparr>embedding = Some [5, 5], text = None, metadata = Some (JDict []),
                             context = Some JNull\<rparr>]\<rparr>
            ''idx''
            (snd (index_mode \<lparr>chunks = Some [example_chunk [1, 0] ''a'']\<rparr> ''idx'' Map.empty)))"

section \<open>Properties\<close>

subsection \<open>Evaluation of the examples\<close>

lemma binary_exponent_numeral:
  "binary_exponent (numeral k) a e =
     (if 2 \<le> a then binary_exponent (pred_numeral k) (a / 2) (e + 1)
      else if a < 1 then binary_exponent (pred_numeral k) (2 * a) (e - 1)
      else e)"
  by (simp add: numeral_eq_Suc)

lemmas f32_eval =
  f32_round_def f32_nearest_def f32_spacing_def round_half_even_def pow2_def FLT_MAX_def
  binary_exponent_numeral fvec_L2sqr_def fsub_def

lemmas script_defs =
  index_mode_def query_mode_def dict_get_def py_getitem_def np_array_def astype_float32_def
  index_add_def IndexFlatL2_def index_search_def knn_row_def kept_def candidates_def
  write_index_def read_index_def json_dump_def json_load_def index_file_def meta_file_def
  os_path_join_def meta_entry_def

lemmas example_defs = example_chunk_def example_entry_def three_chunks_def three_store_def

lemma dict_get_simps [simp]:
  "dict_get None = Inl KeyError" "dict_get (Some x) = Inr x"
  by (simp_all add: dict_get_def)

lemma f32_round_values:
  "f32_round 0 = Finite 0"
  "f32_round 1 = Finite 1"
  "f32_round 5 = Finite 5"
  "f32_round (9 / 10) = Finite (7549747 / 8388608)"
  "f32_round (1 / 10) = Finite (13421773 / 134217728)"
  by (simp_all add: f32_eval)

text \<open>
  Rounding at the edges of the format: a tie goes to the even neighbour, half of the
  smallest subnormal number goes to zero, \<open>FLT_MAX\<close> is kept, and half a spacing above
  \<open>FLT_MAX\<close> is the first number that becomes an infinity.
\<close>

lemma f32_round_edges:
  "f32_round 16777217 = Finite 16777216"
  "f32_round 16777219 = Finite 16777220"
  "f32_round (1 / 2 ^ 150) = Finite 0"
  "f32_round (3 / 2 ^ 150) = Finite (1 / 2 ^ 148)"
  "f32_round ((2 ^ 24 - 1) * 2 ^ 104) = Finite ((2 ^ 24 - 1) * 2 ^ 104)"
  "f32_round ((2 ^ 24 - 1) * 2 ^ 104 + 2 ^ 103 - 1) = Finite ((2 ^ 24 - 1) * 2 ^ 104)"
  "f32_round ((2 ^ 24 - 1) * 2 ^ 104 + 2 ^ 103) = PInf"
  "f32_round (- ((2 ^ 24 - 1) * 2 ^ 104 + 2 ^ 103)) = NInf"
  by (simp_all add: f32_eval)

text \<open>
  The decimals \<open>0.9\<close> and \<open>0.1\<close> of the scenario are read by Python as the doubles
  nearest to them; these have the same single-precision values.
\<close>

lemma scenario_query_as_doubles:
  "f32_round (8106479329266893 / 9007199254740992) = f32_round (9 / 10)"
  "f32_round (3602879701896397 / 36028797018963968) = f32_round (1 / 10)"
  by (simp_all add: f32_eval)

lemma three_store_eq:
  "three_store =
     [''idx/faiss.index'' \<mapsto>
        IndexFile \<lparr>ix_d = 2, ix_xb = [[Finite 1, Finite 0], [Finite 0, Finite 1],
                                     [Finite 5, Finite 5]]\<rparr>,
      ''idx/meta.json'' \<mapsto>
        JsonFile [example_entry ''a'', example_entry ''b'', example_entry ''c'']]"
  by (simp add: example_defs script_defs f32_round_values numeral_2_eq_2)

lemma three_store_files:
  "three_store (index_file ''idx'') =
     Some (IndexFile \<lparr>ix_d = 2, ix_xb = [[Finite 1, Finite 0], [Finite 0, Finite 1],
                                          [Finite 5, Finite 5]]\<rparr>)"
  "three_store (meta_file ''idx'') =
     Some (JsonFile [example_entry ''a'', example_entry ''b'', example_entry ''c''])"
  by (simp_all add: three_store_eq index_file_def meta_file_def os_path_join_def)

lemma three_chunks_run: "index_mode three_chunks ''idx'' Map.empty = (Inr 3, three_store)"
  by (simp add: three_store_eq) (simp add: example_defs script_defs f32_round_values numeral_2_eq_2)

lemma scenario_distances:
  "fvec_L2sqr [Finite (7549747 / 8388608), Finite (13421773 / 134217728)] [Finite 1, Finite 0]
     = Finite (10737421 / 536870912)"
  "fvec_L2sqr [Finite (7549747 / 8388608), Finite (13421773 / 134217728)] [Finite 0, Finite 1]
     = Finite (1698693 / 1048576)"
  "fvec_L2sqr [Finite (7549747 / 8388608), Finite (13421773 / 134217728)] [Finite 5, Finite 5]
     = Finite (5350359 / 131072)"
  by (simp_all add: f32_eval)

lemma untexted_run:
  "index_mode untexted_chunk ''idx'' three_store =
     (Inl KeyError,
      three_store(index_file ''idx'' \<mapsto> IndexFile \<lparr>ix_d = 2, ix_xb = [[Finite 0, Finite 1]]\<rparr>))"
  by (simp add: untexted_chunk_def index_mode_def np_array_def astype_float32_def
      py_getitem_def index_add_def IndexFlatL2_def write_index_def three_store_files
      meta_entry_def f32_round_values numeral_2_eq_2)

lemma short_meta_store_eq:
  "short_meta_store =
     [''idx/faiss.index'' \<mapsto>
        IndexFile \<lparr>ix_d = 2, ix_xb = [[Finite 1, Finite 0], [Finite 0, Finite 1],
                                     [Finite 5, Finite 5]]\<rparr>,
      ''idx/meta.json'' \<mapsto> JsonFile [example_entry ''a'']]"
  by (simp add: short_meta_store_def example_chunk_def example_entry_def script_defs
      f32_round_values numeral_2_eq_2 fun_upd_twist)

lemma short_meta_store_files:
  "short_meta_store (index_file ''idx'') =
     Some (IndexFile \<lparr>ix_d = 2, ix_xb = [[Finite 1, Finite 0], [Finite 0, Finite 1],
                                          [Finite 5, Finite 5]]\<rparr>)"
  "short_meta_store (meta_file ''idx'') = Some (JsonFile [example_entry ''a''])"
  by (simp_all add: short_meta_store_eq index_file_def meta_file_def os_path_join_def)

lemma overflow_values:
  "f32_round 100000000000000000000 = Finite 100000002004087734272"
  "fvec_L2sqr [Finite 0] [Finite 100000002004087734272] = PInf"
  "fvec_L2sqr [Finite 0] [Finite 1] = Finite 1"
  by (simp_all add: f32_eval)

lemma one_less_FLT_MAX: "1 < FLT_MAX"
  by (simp add: FLT_MAX_def)

lemma overflow_chunks_run:
  "index_mode overflow_chunks ''idx'' Map.empty =
     (Inr 2,
      [''idx/faiss.index'' \<mapsto>
         IndexFile \<lparr>ix_d = 1, ix_xb = [[Finite 100000002004087734272], [Finite 1]]\<rparr>,
       ''idx/meta.json'' \<mapsto> JsonFile [example_entry ''a'', example_entry ''b'']])"
  by (simp add: overflow_chunks_def example_chunk_def example_entry_def script_defs
      overflow_values f32_round_values)

subsection \<open>Positional lookup\<close>

lemma py_getitem_IndexError_iff:
  "py_getitem xs p = Inl IndexError \<longleftrightarrow> (int (length xs) \<le> p \<or> p < - int (length xs))"
  by (auto simp: py_getitem_def Let_def)

lemma py_getitem_error:
  "py_getitem xs p = Inl e \<Longrightarrow> e = IndexError"
  by (auto simp: py_getitem_def Let_def split: if_splits)

lemma py_getitem_nonneg:
  "0 \<le> p \<Longrightarrow> p < int (length xs) \<Longrightarrow> py_getitem xs p = Inr (xs ! nat p)"
  by (simp add: py_getitem_def)

lemma py_getitem_negative:
  "p < 0 \<Longrightarrow> - int (length xs) \<le> p \<Longrightarrow>
     py_getitem xs p = Inr (xs ! nat (p + int (length xs)))"
  by (simp add: py_getitem_def)

subsection \<open>List comprehensions\<close>

lemma comprehension_Inr_iff:
  "comprehension f xs = Inr ys \<longleftrightarrow> map f xs = map Inr ys"
proof (induction xs arbitrary: ys)
  case Nil
  show ?case by auto
next
  case (Cons x xs)
  show ?case
  proof (cases "f x")
    case (Inl e)
    then show ?thesis by (cases ys) auto
  next
    case (Inr y)
    show ?thesis
    proof (cases "comprehension f xs")
      case (Inl e)
      with Inr Cons.IH show ?thesis by (cases ys) auto
    next
      case r: (Inr zs)
      with Inr Cons.IH [of zs] Cons.IH show ?thesis by (cases ys) auto
    qed
  qed
qed



subsection \<open>The exhaustive scan\<close>

lemma candidates_nth:
  "i < length xb \<Longrightarrow> candidates xb q ! i = (int i, fvec_L2sqr q (xb ! i))"
  by (simp add: candidates_def)

lemma length_candidates: "length (candidates xb q) = length xb"
  by (simp add: candidates_def)

lemma map_fst_candidates: "map fst (candidates xb q) = map int [0..<length xb]"
  by (simp add: candidates_def)

lemma map_snd_candidates: "map snd (candidates xb q) = map (fvec_L2sqr q) xb"
  by (simp add: candidates_def)

lemma distinct_fst_candidates: "distinct (map fst (candidates xb q))"
  by (simp add: map_fst_candidates distinct_map)

lemma in_candidates:
  "(p, r) \<in> set (candidates xb q) \<longleftrightarrow>
     (0 \<le> p \<and> nat p < length xb \<and> r = fvec_L2sqr q (xb ! nat p))"
proof
  assume "(p, r) \<in> set (candidates xb q)"
  then obtain i where i: "i < length xb" and "candidates xb q ! i = (p, r)"
    by (auto simp: in_set_conv_nth length_candidates)
  then show "0 \<le> p \<and> nat p < length xb \<and> r = fvec_L2sqr q (xb ! nat p)"
    by (auto simp: candidates_nth)
next
  assume a: "0 \<le> p \<and> nat p < length xb \<and> r = fvec_L2sqr q (xb ! nat p)"
  then have "candidates xb q ! nat p = (p, r)"
    by (simp add: candidates_nth)
  with a show "(p, r) \<in> set (candidates xb q)"
    by (metis length_candidates nth_mem)
qed

lemma in_kept:
  "(p, r) \<in> set (kept xb q) \<longleftrightarrow>
     (0 \<le> p \<and> nat p < length xb \<and> r = fvec_L2sqr q (xb ! nat p) \<and> admitted r)"
  by (auto simp: kept_def in_candidates)

lemma distinct_fst_kept: "distinct (map fst (kept xb q))"
  unfolding kept_def by (rule distinct_map_filter) (rule distinct_fst_candidates)

lemma length_kept:
  "length (kept xb q) = length (filter (\<lambda>y. admitted (fvec_L2sqr q y)) xb)"
proof -
  have "length (kept xb q) = length (filter admitted (map snd (candidates xb q)))"
    by (simp add: kept_def filter_map comp_def)
  also have "\<dots> = length (filter (\<lambda>y. admitted (fvec_L2sqr q y)) xb)"
    by (simp add: map_snd_candidates filter_map comp_def)
  finally show ?thesis .
qed

lemma distinct_fst_sort_key:
  "distinct (map fst (sort_key f zs)) = distinct (map fst zs)"
  by (simp add: distinct_map)

lemma knn_row_within:
  "k \<le> length (kept xb q) \<Longrightarrow>
     knn_row xb k q = take k (sort_key (\<lambda>c. f32_val (snd c)) (kept xb q))"
  by (simp add: knn_row_def Let_def)

lemma knn_row_beyond:
  "length (kept xb q) \<le> k \<Longrightarrow>
     knn_row xb k q =
       sort_key (\<lambda>c. f32_val (snd c)) (kept xb q)
         @ replicate (k - length (kept xb q)) (- 1, Finite FLT_MAX)"
  by (simp add: knn_row_def Let_def)

lemma length_knn_row: "length (knn_row xb k q) = k"
  by (simp add: knn_row_def Let_def)

lemma sorted_knn_row_within:
  assumes "k \<le> length (kept xb q)"
  shows "sorted (map f32_val (map snd (knn_row xb k q)))"
proof -
  let ?s = "sort_key (\<lambda>c. f32_val (snd c)) (kept xb q)"
  have "sorted (map (\<lambda>c. f32_val (snd c)) ?s)" by (rule sorted_sort_key)
  then have "sorted (take k (map (\<lambda>c. f32_val (snd c)) ?s))" by (rule sorted_wrt_take)
  then show ?thesis
    using assms by (simp add: knn_row_within take_map comp_def)
qed

lemma distinct_knn_row_within:
  "k \<le> length (kept xb q) \<Longrightarrow> distinct (map fst (knn_row xb k q))"
  using distinct_fst_kept [of xb q]
  by (simp add: knn_row_within take_map [symmetric] distinct_fst_sort_key del: take_map)

lemma knn_row_within_member:
  assumes "k \<le> length (kept xb q)" and "(p, r) \<in> set (knn_row xb k q)"
  shows "0 \<le> p \<and> nat p < length xb \<and> r = fvec_L2sqr q (xb ! nat p) \<and> admitted r"
proof -
  from assms have "(p, r) \<in> set (sort_key (\<lambda>c. f32_val (snd c)) (kept xb q))"
    by (auto simp: knn_row_within dest: in_set_takeD)
  then show ?thesis by (auto simp: in_kept)
qed

lemma knn_row_within_nearest:
  assumes k: "k \<le> length (kept xb q)" and p: "p < length xb"
    and adm: "admitted (fvec_L2sqr q (xb ! p))"
    and out: "int p \<notin> fst ` set (knn_row xb k q)"
    and r: "r \<in> snd ` set (knn_row xb k q)"
  shows "f32_val r \<le> f32_val (fvec_L2sqr q (xb ! p))"
proof -
  let ?key = "\<lambda>c. f32_val (snd c)"
  let ?s = "sort_key ?key (kept xb q)"
  have "(int p, fvec_L2sqr q (xb ! p)) \<in> set ?s"
    using p adm by (simp add: in_kept)
  moreover have "set ?s = set (take k ?s) \<union> set (drop k ?s)"
    by (metis append_take_drop_id set_append)
  ultimately have "(int p, fvec_L2sqr q (xb ! p)) \<in> set (drop k ?s)"
    using out k by (force simp: knn_row_within)
  then have d: "f32_val (fvec_L2sqr q (xb ! p)) \<in> set (map ?key (drop k ?s))"
    by force
  have "sorted (map ?key (take k ?s) @ map ?key (drop k ?s))"
    by (simp add: map_append [symmetric] del: map_append)
  then have "\<forall>a\<in>set (map ?key (take k ?s)). \<forall>b\<in>set (map ?key (drop k ?s)). a \<le> b"
    by (simp add: sorted_append)
  moreover have "f32_val r \<in> set (map ?key (take k ?s))"
    using r k by (force simp: knn_row_within)
  ultimately show ?thesis using d by blast
qed

lemma np_array_single: "np_array [q] = Inr \<lparr>shape = [1, length q], rows = [q]\<rparr>"
  by (simp add: np_array_def)

lemma astype_single:
  "astype_float32 \<lparr>shape = [1, length q], rows = [q]\<rparr> =
     \<lparr>shape = [1, length q], rows = [map f32_round q]\<rparr>"
  by (simp add: astype_float32_def)

lemma index_search_single:
  "length q = ix_d ix \<Longrightarrow> 0 < k \<Longrightarrow> k < 2 ^ 60 \<Longrightarrow>
     index_search ix \<lparr>shape = [1, length q], rows = [v]\<rparr> k =
       Inr ([map snd (knn_row (ix_xb ix) (nat k) v)], [map fst (knn_row (ix_xb ix) (nat k) v)])"
  by (simp add: index_search_def)

subsection \<open>Search with at most as many results as vectors\<close>

text \<open>
  Claim C2, as amended. Let \<open>m\<close> be the number of stored vectors whose squared distance
  from the query, computed in single precision, is a finite number below \<open>FLT_MAX\<close>
  (all \<open>n\<close> of them unless a distance overflows or is NaN). A search for \<open>k\<close>
  neighbours with \<open>1 \<le> k \<le> m\<close> and \<open>k < 2 ^ 60\<close>, with a query of the index's
  dimension, returns one row of exactly \<open>k\<close> distances and \<open>k\<close> labels. The distances
  are in ascending order, the labels are distinct positions in \<open>0 .. n - 1\<close>, each
  distance is the single-precision squared distance between the query and the vector at
  its label, and no vector left out whose distance is below \<open>FLT_MAX\<close> is nearer than
  a vector returned.
\<close>

theorem search_k_nearest:
  assumes k1: "1 \<le> k" and k60: "k < 2 ^ 60"
    and dq: "length q = ix_d ix" and a: "np_array [q] = Inr a"
    and km: "k \<le> int (length (filter (\<lambda>y. admitted (fvec_L2sqr (map f32_round q) y))
                                   (ix_xb ix)))"
  shows "\<exists>D I. index_search ix (astype_float32 a) k = Inr ([D], [I])
           \<and> length D = nat k \<and> length I = nat k
           \<and> sorted (map f32_val D) \<and> distinct I
           \<and> set I \<subseteq> {0..<int (ntotal ix)}
           \<and> (\<forall>j<nat k. D ! j = fvec_L2sqr (map f32_round q) (ix_xb ix ! nat (I ! j))
                  \<and> admitted (D ! j))
           \<and> (\<forall>p<ntotal ix. int p \<notin> set I
                  \<and> admitted (fvec_L2sqr (map f32_round q) (ix_xb ix ! p)) \<longrightarrow>
                 (\<forall>r\<in>set D. f32_val r
                    \<le> f32_val (fvec_L2sqr (map f32_round q) (ix_xb ix ! p))))"
proof -
  let ?v = "map f32_round q"
  let ?row = "knn_row (ix_xb ix) (nat k) ?v"
  let ?D = "map snd ?row" and ?I = "map fst ?row"
  have le: "nat k \<le> length (kept (ix_xb ix) ?v)"
    using km by (simp add: length_kept)
  have a': "astype_float32 a = \<lparr>shape = [1, length q], rows = [?v]\<rparr>"
    using a by (auto simp: np_array_single astype_float32_def)
  have res: "index_search ix (astype_float32 a) k = Inr ([?D], [?I])"
    unfolding a' by (rule index_search_single [OF dq]) (use k1 k60 in simp_all)
  have len: "length ?D = nat k" "length ?I = nat k"
    by (simp_all add: length_knn_row)
  have srt: "sorted (map f32_val ?D)"
    using le by (rule sorted_knn_row_within)
  have dst: "distinct ?I"
    using le by (rule distinct_knn_row_within)
  have sub: "set ?I \<subseteq> {0..<int (ntotal ix)}"
  proof
    fix p assume "p \<in> set ?I"
    then obtain r where "(p, r) \<in> set ?row" by auto
    from knn_row_within_member [OF le this]
    show "p \<in> {0..<int (ntotal ix)}" by (auto simp: ntotal_def)
  qed
  have dist: "\<forall>j<nat k. ?D ! j = fvec_L2sqr ?v (ix_xb ix ! nat (?I ! j)) \<and> admitted (?D ! j)"
  proof (intro allI impI)
    fix j assume j: "j < nat k"
    then have "?row ! j \<in> set ?row"
      by (simp add: length_knn_row)
    then have "(fst (?row ! j), snd (?row ! j)) \<in> set ?row" by simp
    from knn_row_within_member [OF le this] j
    show "?D ! j = fvec_L2sqr ?v (ix_xb ix ! nat (?I ! j)) \<and> admitted (?D ! j)"
      by (auto simp: length_knn_row)
  qed
  have near: "\<forall>p<ntotal ix. int p \<notin> set ?I
                  \<and> admitted (fvec_L2sqr ?v (ix_xb ix ! p)) \<longrightarrow>
                 (\<forall>r\<in>set ?D. f32_val r \<le> f32_val (fvec_L2sqr ?v (ix_xb ix ! p)))"
  proof (intro allI impI ballI)
    fix p r assume "p < ntotal ix"
      "int p \<notin> set ?I \<and> admitted (fvec_L2sqr ?v (ix_xb ix ! p))" "r \<in> set ?D"
    then show "f32_val r \<le> f32_val (fvec_L2sqr ?v (ix_xb ix ! p))"
      using knn_row_within_nearest [OF le, of p r] by (simp add: ntotal_def)
  qed
  from res len srt dst sub dist near show ?thesis by blast
qed

theorem search_k_nearest_witness:
  "(1::int) \<le> 2 \<and> (2::int) < 2 ^ 60
   \<and> length [9 / 10, 1 / 10 :: real] =
       ix_d \<lparr>ix_d = 2, ix_xb = [[Finite 1, Finite 0], [Finite 0, Finite 1], [Finite 5, Finite 5]]\<rparr>
   \<and> np_array [[9 / 10, 1 / 10]] = Inr \<lparr>shape = [1, 2], rows = [[9 / 10, 1 / 10]]\<rparr>
   \<and> 2 \<le> int (length (filter (\<lambda>y. admitted (fvec_L2sqr (map f32_round [9 / 10, 1 / 10]) y))
                       [[Finite 1, Finite 0], [Finite 0, Finite 1], [Finite 5, Finite 5]]))
   \<and> (\<exists>D I. index_search
                \<lparr>ix_d = 2, ix_xb = [[Finite 1, Finite 0], [Finite 0, Finite 1], [Finite 5, Finite 5]]\<rparr>
                (astype_float32 \<lparr>shape = [1, 2], rows = [[9 / 10, 1 / 10]]\<rparr>) 2 = Inr ([D], [I])
           \<and> length D = 2 \<and> length I = 2 \<and> sorted (map f32_val D) \<and> distinct I
           \<and> set I \<subseteq> {0..<3})"
proof -
  let ?ix = "\<lparr>ix_d = 2, ix_xb = [[Finite 1, Finite 0], [Finite 0, Finite 1], [Finite 5, Finite 5]]\<rparr>"
  let ?q = "[9 / 10, 1 / 10 :: real]"
  let ?a = "\<lparr>shape = [1, 2], rows = [?q]\<rparr>"
  have h1: "(1::int) \<le> 2" by simp
  have h2: "(2::int) < 2 ^ 60" by simp
  have h3: "length ?q = ix_d ?ix" by simp
  have h4: "np_array [?q] = Inr ?a" by (simp add: np_array_def)
  have h5: "2 \<le> int (length (filter (\<lambda>y. admitted (fvec_L2sqr (map f32_round ?q) y))
                       (ix_xb ?ix)))"
    by (simp add: f32_round_values scenario_distances FLT_MAX_def)
  have n: "int (ntotal ?ix) = 3" by (simp add: ntotal_def)
  from search_k_nearest [OF h1 h2 h3 h4 h5]
  obtain D I where "index_search ?ix (astype_float32 ?a) 2 = Inr ([D], [I])"
     "length D = nat 2" "length I = nat 2"
     "sorted (map f32_val D)" "distinct I" "set I \<subseteq> {0..<int (ntotal ?ix)}" by blast
  then have "\<exists>D I. index_search ?ix (astype_float32 ?a) 2 = Inr ([D], [I])
           \<and> length D = 2 \<and> length I = 2 \<and> sorted (map f32_val D) \<and> distinct I
           \<and> set I \<subseteq> {0..<3}"
    unfolding n by auto
  with h1 h2 h3 h4 h5 show ?thesis by simp
qed

text \<open>
  Claim C2 as stated does not hold. Index the embeddings \<open>[1e20]\<close> and \<open>[1]\<close> and
  search for the \<open>k = 2\<close> neighbours of \<open>[0]\<close> among these \<open>n = 2\<close> vectors: the
  squared distance of the first vector overflows single precision, the search does not
  keep it, and the row of labels is \<open>1, -1\<close>, the second of which is no position of
  the store.
\<close>

theorem search_overflow_pads_within_store_size:
  "read_index (index_file ''idx'') (snd (index_mode overflow_chunks ''idx'' Map.empty)) =
     Inr \<lparr>ix_d = 1, ix_xb = [[Finite 100000002004087734272], [Finite 1]]\<rparr>
   \<and> ntotal \<lparr>ix_d = 1, ix_xb = [[Finite 100000002004087734272], [Finite 1]]\<rparr> = 2
   \<and> index_search \<lparr>ix_d = 1, ix_xb = [[Finite 100000002004087734272], [Finite 1]]\<rparr>
        (astype_float32 \<lparr>shape = [1, 1], rows = [[0]]\<rparr>) 2
       = Inr ([[Finite 1, Finite FLT_MAX]], [[1, - 1]])"
  unfolding overflow_chunks_run
  by (simp add: read_index_def index_file_def os_path_join_def ntotal_def astype_float32_def
      index_search_def knn_row_def kept_def candidates_def f32_round_values overflow_values
      one_less_FLT_MAX upt_rec)

subsection \<open>The end-to-end scenario\<close>

text \<open>
  Claim C3. Indexing the three chunks with embeddings \<open>[1,0]\<close>, \<open>[0,1]\<close>, \<open>[5,5]\<close> and
  texts \<open>a\<close>, \<open>b\<close>, \<open>c\<close> succeeds and reports three chunks; a query with embedding
  \<open>[0.9,0.1]\<close> and \<open>k = 2\<close> against the directory then prints exactly the stored
  entries of \<open>a\<close> and \<open>b\<close>, in this order. The printed list holds the entries only:
  the distances returned by the search are dropped.
\<close>

theorem end_to_end_query:
  "fst (index_mode three_chunks ''idx'' Map.empty) = Inr 3 \<and>
   query_mode \<lparr>q_embedding = Some [9 / 10, 1 / 10], q_k = Some 2, q_context = Some JNull\<rparr>
      ''idx'' (snd (index_mode three_chunks ''idx'' Map.empty))
     = Inr [example_entry ''a'', example_entry ''b'']"
  unfolding three_chunks_run
  by (simp add: three_store_files query_mode_def np_array_def astype_float32_def
      read_index_def json_load_def index_search_def knn_row_def kept_def candidates_def
      f32_round_values scenario_distances FLT_MAX_def py_getitem_def upt_rec)

subsection \<open>The runs of the index mode\<close>

lemma index_file_neq_meta_file: "index_file index_dir \<noteq> meta_file index_dir"
  by (simp add: index_file_def meta_file_def os_path_join_def)

lemma comprehension_Inl_D:
  "comprehension f xs = Inl e \<Longrightarrow> \<exists>x\<in>set xs. f x = Inl e"
  by (induction xs) (auto split: sum.splits)

lemma comprehension_dict_get_iff:
  "comprehension (\<lambda>c. dict_get (g c)) cs = Inr es \<longleftrightarrow> map g cs = map Some es"
proof -
  have "map (\<lambda>c. dict_get (g c)) cs = map Inr es \<longleftrightarrow> map g cs = map Some es"
  proof (induction cs arbitrary: es)
    case Nil
    show ?case by auto
  next
    case (Cons c cs)
    show ?case
      by (cases es; cases "g c") (auto simp: Cons.IH)
  qed
  then show ?thesis by (simp add: comprehension_Inr_iff)
qed

lemma meta_entry_Inl_iff:
  "meta_entry c = Inl e \<longleftrightarrow>
     e = KeyError \<and> (text c = None \<or> metadata c = None \<or> context c = None)"
  by (auto simp: meta_entry_def dict_get_def split: option.splits)


lemma np_array_Inr_iff:
  "np_array L = Inr a \<longleftrightarrow>
     (L = [] \<and> a = \<lparr>shape = [0], rows = []\<rparr>) \<or>
     (L \<noteq> [] \<and> list_all (\<lambda>w. length w = length (hd L)) L
        \<and> a = \<lparr>shape = [length L, length (hd L)], rows = L\<rparr>)"
  by (cases L) (auto simp: np_array_def)

text \<open>
  What the index mode does once the batch is known to build: the payload has its chunks,
  every chunk its embedding, there is at least one and all have one length.
\<close>

lemma index_mode_built:
  assumes "chunks data = Some cs" and "map embedding cs = map Some es" and "es \<noteq> []"
    and "list_all (\<lambda>w. length w = length (hd es)) es"
  shows "index_mode data index_dir files =
     (case write_index \<lparr>ix_d = length (hd es), ix_xb = map (map f32_round) es\<rparr>
             (index_file index_dir) files of
        Inl e \<Rightarrow> (Inl e, files)
      | Inr files1 \<Rightarrow>
     (case comprehension meta_entry cs of
        Inl e \<Rightarrow> (Inl e, files1)
      | Inr meta \<Rightarrow>
     (case json_dump meta (meta_file index_dir) files1 of
        Inl e \<Rightarrow> (Inl e, files1)
      | Inr files2 \<Rightarrow> (Inr (length cs), files2))))"
proof -
  have c: "comprehension (\<lambda>c. dict_get (embedding c)) cs = Inr es"
    using assms(2) by (simp add: comprehension_dict_get_iff)
  have a: "np_array es = Inr \<lparr>shape = [length es, length (hd es)], rows = es\<rparr>"
    using assms(3,4) by (simp add: np_array_Inr_iff)
  show ?thesis
    using assms(1)
    by (simp add: index_mode_def c a astype_float32_def py_getitem_def index_add_def
        IndexFlatL2_def)
qed

text \<open>Every other batch fails before the first write.\<close>

lemma index_mode_unbuilt:
  assumes "\<not> (\<exists>cs es. chunks data = Some cs \<and> map embedding cs = map Some es \<and> es \<noteq> []
                \<and> list_all (\<lambda>w. length w = length (hd es)) es)"
  shows "\<exists>e. index_mode data index_dir files = (Inl e, files)"
proof (cases "chunks data")
  case None
  then show ?thesis by (simp add: index_mode_def)
next
  case (Some cs)
  show ?thesis
  proof (cases "comprehension (\<lambda>c. dict_get (embedding c)) cs")
    case (Inl e)
    with Some show ?thesis by (simp add: index_mode_def)
  next
    case (Inr es)
    then have m: "map embedding cs = map Some es"
      by (simp add: comprehension_dict_get_iff)
    show ?thesis
    proof (cases "np_array es")
      case (Inl e)
      with Some Inr show ?thesis by (simp add: index_mode_def)
    next
      case r: (Inr a)
      with assms Some m have "es = []"
        by (auto simp: np_array_Inr_iff)
      with Some Inr show ?thesis
        by (simp add: index_mode_def np_array_def astype_float32_def py_getitem_def)
    qed
  qed
qed

lemma index_mode_Inr_D:
  assumes "index_mode data index_dir files = (Inr n, files')"
  shows "\<exists>cs es meta. chunks data = Some cs \<and> map embedding cs = map Some es \<and> es \<noteq> []
           \<and> list_all (\<lambda>w. length w = length (hd es)) es
           \<and> comprehension meta_entry cs = Inr meta \<and> n = length cs
           \<and> files (index_file index_dir) \<noteq> Some Directory
           \<and> files (meta_file index_dir) \<noteq> Some Directory
           \<and> files' = files(index_file index_dir \<mapsto>
                          IndexFile \<lparr>ix_d = length (hd es), ix_xb = map (map f32_round) es\<rparr>,
                        meta_file index_dir \<mapsto> JsonFile meta)"
proof -
  have "\<exists>cs es. chunks data = Some cs \<and> map embedding cs = map Some es \<and> es \<noteq> []
                \<and> list_all (\<lambda>w. length w = length (hd es)) es"
    using assms index_mode_unbuilt [of data index_dir files] by (cases ?thesis) auto
  then obtain cs es where b: "chunks data = Some cs" "map embedding cs = map Some es"
      "es \<noteq> []" "list_all (\<lambda>w. length w = length (hd es)) es"
    by blast
  note run = index_mode_built [OF b, of index_dir files]
  have neq: "meta_file index_dir \<noteq> index_file index_dir"
    using index_file_neq_meta_file [of index_dir] by simp
  from assms run have "\<exists>meta. comprehension meta_entry cs = Inr meta \<and> n = length cs
           \<and> files (index_file index_dir) \<noteq> Some Directory
           \<and> files (meta_file index_dir) \<noteq> Some Directory
           \<and> files' = files(index_file index_dir \<mapsto>
                          IndexFile \<lparr>ix_d = length (hd es), ix_xb = map (map f32_round) es\<rparr>,
                        meta_file index_dir \<mapsto> JsonFile meta)"
    using neq
    by (auto simp: write_index_def json_dump_def
        split: sum.splits option.splits file_content.splits)
  with b show ?thesis by blast
qed

subsection \<open>Alignment of the two files\<close>



subsection \<open>Saving and loading the index\<close>

lemma read_written_index:
  "write_index s p files = Inr files' \<Longrightarrow> read_index p files' = Inr s"
  by (auto simp: write_index_def read_index_def split: option.splits file_content.splits)

text \<open>
  Claim C7. From every batch of \<open>n \<ge> 1\<close> vectors of one length \<open>d\<close> the script builds
  a store \<open>s\<close> of dimension \<open>d\<close> with \<open>n\<close> vectors, each of \<open>d\<close> components, in the
  order of the batch, each component the single-precision value of the vector's; and
  loading the file to which \<open>s\<close> has been saved returns \<open>s\<close>. Through the two modes:
  after a successful run of the index mode, what the query mode loads from the
  directory is the store built from the embeddings of the run. A file holds the value
  written to it: that faiss writes and reads the components as they are is taken from
  the library.
\<close>

theorem index_round_trip:
  "(vs \<noteq> [] \<and> list_all (\<lambda>w. length w = d) vs \<and> files p \<noteq> Some Directory \<longrightarrow>
      (\<exists>a s files1.
          np_array vs = Inr a \<and> py_getitem (shape (astype_float32 a)) 1 = Inr d
          \<and> index_add (IndexFlatL2 d) (astype_float32 a) = Inr s
          \<and> write_index s p files = Inr files1
          \<and> read_index p files1 = Inr s
          \<and> ix_d s = d \<and> ntotal s = length vs
          \<and> list_all (\<lambda>v. length v = d) (ix_xb s)
          \<and> ix_xb s = map (map f32_round) vs))
   \<and> (index_mode data index_dir files = (Inr n, files') \<longrightarrow>
      (\<exists>cs es. chunks data = Some cs \<and> map embedding cs = map Some es
          \<and> n = length es \<and> 1 \<le> n
          \<and> list_all (\<lambda>w. length w = length (hd es)) es
          \<and> read_index (index_file index_dir) files' =
                Inr \<lparr>ix_d = length (hd es), ix_xb = map (map f32_round) es\<rparr>))"
proof (rule conjI; rule impI)
  assume b: "vs \<noteq> [] \<and> list_all (\<lambda>w. length w = d) vs \<and> files p \<noteq> Some Directory"
  let ?a = "\<lparr>shape = [length vs, d], rows = vs\<rparr>"
  let ?s = "\<lparr>ix_d = d, ix_xb = map (map f32_round) vs\<rparr>"
  let ?f1 = "files(p \<mapsto> IndexFile ?s)"
  have hd: "length (hd vs) = d"
    using b by (cases vs) simp_all
  have a: "np_array vs = Inr ?a"
    using b hd by (simp add: np_array_Inr_iff)
  have d: "py_getitem (shape (astype_float32 ?a)) 1 = Inr d"
    by (simp add: astype_float32_def py_getitem_def)
  have s: "index_add (IndexFlatL2 d) (astype_float32 ?a) = Inr ?s"
    by (simp add: index_add_def IndexFlatL2_def astype_float32_def)
  have w: "write_index ?s p files = Inr ?f1"
    using b by (auto simp: write_index_def split: option.splits file_content.splits)
  have r: "read_index p ?f1 = Inr ?s"
    using w by (rule read_written_index)
  have props: "ix_d ?s = d" "ntotal ?s = length vs" "list_all (\<lambda>v. length v = d) (ix_xb ?s)"
      "ix_xb ?s = map (map f32_round) vs"
    using b by (simp_all add: ntotal_def list_all_iff)
  from a d s w r props
  show "\<exists>a s files1.
          np_array vs = Inr a \<and> py_getitem (shape (astype_float32 a)) 1 = Inr d
          \<and> index_add (IndexFlatL2 d) (astype_float32 a) = Inr s
          \<and> write_index s p files = Inr files1
          \<and> read_index p files1 = Inr s
          \<and> ix_d s = d \<and> ntotal s = length vs
          \<and> list_all (\<lambda>v. length v = d) (ix_xb s)
          \<and> ix_xb s = map (map f32_round) vs"
    by blast
next
  assume run: "index_mode data index_dir files = (Inr n, files')"
  from index_mode_Inr_D [OF run]
  obtain cs es meta where cs: "chunks data = Some cs"
    and es: "map embedding cs = map Some es" and ne: "es \<noteq> []"
    and eq: "list_all (\<lambda>w. length w = length (hd es)) es"
    and n: "n = length cs"
    and f: "files' = files(index_file index_dir \<mapsto>
                          IndexFile \<lparr>ix_d = length (hd es), ix_xb = map (map f32_round) es\<rparr>,
                        meta_file index_dir \<mapsto> JsonFile meta)"
    by blast
  have len: "n = length es" using es n by (metis length_map)
  have n1: "1 \<le> n" using ne len by (cases es) simp_all
  have r2: "read_index (index_file index_dir) files' =
              Inr \<lparr>ix_d = length (hd es), ix_xb = map (map f32_round) es\<rparr>"
    using index_file_neq_meta_file [of index_dir] by (simp add: f read_index_def)
  from cs es len n1 eq r2
  show "\<exists>cs es. chunks data = Some cs \<and> map embedding cs = map Some es
          \<and> n = length es \<and> 1 \<le> n
          \<and> list_all (\<lambda>w. length w = length (hd es)) es
          \<and> read_index (index_file index_dir) files' =
                Inr \<lparr>ix_d = length (hd es), ix_xb = map (map f32_round) es\<rparr>"
    by blast
qed

theorem index_round_trip_witness:
  "[[1, 0], [0, 1], [5, 5 :: real]] \<noteq> []
   \<and> list_all (\<lambda>w. length w = 2) [[1, 0], [0, 1], [5, 5 :: real]]
   \<and> (Map.empty :: fs) ''idx/faiss.index'' \<noteq> Some Directory
   \<and> (\<exists>s files1.
          write_index s ''idx/faiss.index'' Map.empty = Inr files1
          \<and> read_index ''idx/faiss.index'' files1 = Inr s
          \<and> ix_xb s = [[Finite 1, Finite 0], [Finite 0, Finite 1], [Finite 5, Finite 5]])
   \<and> index_mode three_chunks ''idx'' Map.empty = (Inr 3, three_store)
   \<and> read_index (index_file ''idx'') three_store =
       Inr \<lparr>ix_d = 2, ix_xb = [[Finite 1, Finite 0], [Finite 0, Finite 1],
                                  [Finite 5, Finite 5]]\<rparr>"
proof -
  let ?vs = "[[1, 0], [0, 1], [5, 5 :: real]]"
  have h: "?vs \<noteq> [] \<and> list_all (\<lambda>w. length w = 2) ?vs
      \<and> (Map.empty :: fs) ''idx/faiss.index'' \<noteq> Some Directory"
    by simp
  note rt = index_round_trip [of ?vs 2 Map.empty "''idx/faiss.index''"
      three_chunks "''idx''" 3 three_store]
  from rt h obtain a s files1 where
      "np_array ?vs = Inr a"
      "index_add (IndexFlatL2 2) (astype_float32 a) = Inr s"
      "write_index s ''idx/faiss.index'' Map.empty = Inr files1"
      "read_index ''idx/faiss.index'' files1 = Inr s"
      "ix_xb s = map (map f32_round) ?vs"
    by blast
  then have p1: "\<exists>s files1.
          write_index s ''idx/faiss.index'' Map.empty = Inr files1
          \<and> read_index ''idx/faiss.index'' files1 = Inr s
          \<and> ix_xb s = [[Finite 1, Finite 0], [Finite 0, Finite 1], [Finite 5, Finite 5]]"
    by (auto simp: np_array_def f32_round_values)
  from rt three_chunks_run
  have p2: "read_index (index_file ''idx'') three_store =
       Inr \<lparr>ix_d = 2, ix_xb = [[Finite 1, Finite 0], [Finite 0, Finite 1],
                                  [Finite 5, Finite 5]]\<rparr>"
    by (simp add: read_index_def three_store_files)
  from h p1 three_chunks_run p2 show ?thesis by blast
qed

subsection \<open>A failed run of the index mode\<close>

text \<open>
  Claim C8, as amended. The index mode writes \<open>faiss.index\<close> in place and then
  \<open>meta.json\<close> in place, with no temporary file, so a run is not atomic. Say that the
  batch builds when the payload has its chunks, every chunk has its embedding, there is
  at least one chunk and all embeddings have one length. When a run fails on a batch
  that builds, with an index path that can be written, it has failed after the first
  write: \<open>faiss.index\<close> holds the new index built from the batch and \<open>meta.json\<close> holds
  what it held before; the exception is the \<open>KeyError\<close> of a chunk without text,
  metadata or context, or the \<open>IsADirectoryError\<close> of a metadata path that cannot be
  opened for writing. When a run fails in any other case (no chunks, a chunk without
  embedding, embeddings of different lengths, an empty batch, an index path that cannot
  be written) the file system is as it was. A write that breaks off in the middle is
  outside the model and outside this statement.
\<close>

theorem index_failure_footprint:
  assumes "index_mode data index_dir files = (Inl e, files')"
  shows "(\<forall>cs es. chunks data = Some cs \<and> map embedding cs = map Some es \<and> es \<noteq> []
             \<and> list_all (\<lambda>w. length w = length (hd es)) es
             \<and> files (index_file index_dir) \<noteq> Some Directory \<longrightarrow>
           files' = files(index_file index_dir \<mapsto>
                      IndexFile \<lparr>ix_d = length (hd es), ix_xb = map (map f32_round) es\<rparr>)
           \<and> files' (meta_file index_dir) = files (meta_file index_dir)
           \<and> (e = KeyError
                 \<and> (\<exists>c\<in>set cs. text c = None \<or> metadata c = None \<or> context c = None)
               \<or> e = IsADirectoryError \<and> files (meta_file index_dir) = Some Directory))
       \<and> ((\<nexists>cs es. chunks data = Some cs \<and> map embedding cs = map Some es \<and> es \<noteq> []
             \<and> list_all (\<lambda>w. length w = length (hd es)) es
             \<and> files (index_file index_dir) \<noteq> Some Directory) \<longrightarrow>
           files' = files)"
proof (rule conjI; intro allI impI)
  fix cs es
  assume b: "chunks data = Some cs \<and> map embedding cs = map Some es \<and> es \<noteq> []
             \<and> list_all (\<lambda>w. length w = length (hd es)) es
             \<and> files (index_file index_dir) \<noteq> Some Directory"
  let ?s = "\<lparr>ix_d = length (hd es), ix_xb = map (map f32_round) es\<rparr>"
  let ?f1 = "files(index_file index_dir \<mapsto> IndexFile ?s)"
  have w: "write_index ?s (index_file index_dir) files = Inr ?f1"
    using b by (auto simp: write_index_def split: option.splits file_content.splits)
  have neq: "meta_file index_dir \<noteq> index_file index_dir"
    using index_file_neq_meta_file [of index_dir] by simp
  have run: "index_mode data index_dir files =
     (case comprehension meta_entry cs of
        Inl e \<Rightarrow> (Inl e, ?f1)
      | Inr meta \<Rightarrow>
     (case json_dump meta (meta_file index_dir) ?f1 of
        Inl e \<Rightarrow> (Inl e, ?f1)
      | Inr files2 \<Rightarrow> (Inr (length cs), files2)))"
    using b by (simp add: index_mode_built [of data cs es] w)
  show "files' = ?f1 \<and> files' (meta_file index_dir) = files (meta_file index_dir)
           \<and> (e = KeyError
                 \<and> (\<exists>c\<in>set cs. text c = None \<or> metadata c = None \<or> context c = None)
               \<or> e = IsADirectoryError \<and> files (meta_file index_dir) = Some Directory)"
  proof (cases "comprehension meta_entry cs")
    case (Inl e')
    with run assms have "e = e'" "files' = ?f1" by simp_all
    moreover from Inl obtain c where "c \<in> set cs" "meta_entry c = Inl e'"
      by (blast dest: comprehension_Inl_D)
    ultimately show ?thesis using neq by (auto simp: meta_entry_Inl_iff)
  next
    case (Inr meta)
    with run assms neq show ?thesis
      by (auto simp: json_dump_def split: option.splits file_content.splits)
  qed
next
  assume n: "\<nexists>cs es. chunks data = Some cs \<and> map embedding cs = map Some es \<and> es \<noteq> []
             \<and> list_all (\<lambda>w. length w = length (hd es)) es
             \<and> files (index_file index_dir) \<noteq> Some Directory"
  show "files' = files"
  proof (cases "\<exists>cs es. chunks data = Some cs \<and> map embedding cs = map Some es \<and> es \<noteq> []
                \<and> list_all (\<lambda>w. length w = length (hd es)) es")
    case True
    then obtain cs es where b: "chunks data = Some cs" "map embedding cs = map Some es"
      "es \<noteq> []" "list_all (\<lambda>w. length w = length (hd es)) es" by blast
    with n have "files (index_file index_dir) = Some Directory" by blast
    then show ?thesis
      using assms by (simp add: index_mode_built [OF b] write_index_def)
  next
    case False
    from index_mode_unbuilt [OF False, of index_dir files] assms show ?thesis by auto
  qed
qed

theorem index_failure_footprint_witness:
  "index_mode untexted_chunk ''idx'' three_store =
     (Inl KeyError,
      three_store(index_file ''idx'' \<mapsto> IndexFile \<lparr>ix_d = 2, ix_xb = [[Finite 0, Finite 1]]\<rparr>))
   \<and> (three_store(index_file ''idx'' \<mapsto> IndexFile \<lparr>ix_d = 2, ix_xb = [[Finite 0, Finite 1]]\<rparr>)
         = three_store(index_file ''idx'' \<mapsto>
             IndexFile \<lparr>ix_d = length (hd [[0, 1 :: real]]),
                        ix_xb = map (map f32_round) [[0, 1]]\<rparr>))"
proof -
  let ?cs = "[\<lparr>embedding = Some [0, 1], text = None, metadata = Some (JDict []),
               context = Some JNull\<rparr>]"
  have b: "chunks untexted_chunk = Some ?cs \<and> map embedding ?cs = map Some [[0, 1]]
      \<and> [[0, 1 :: real]] \<noteq> []
      \<and> list_all (\<lambda>w. length w = length (hd [[0, 1 :: real]])) [[0, 1]]
      \<and> three_store (index_file ''idx'') \<noteq> Some Directory"
    by (simp add: untexted_chunk_def three_store_files)
  from index_failure_footprint [OF untexted_run] b
  have "three_store(index_file ''idx'' \<mapsto> IndexFile \<lparr>ix_d = 2, ix_xb = [[Finite 0, Finite 1]]\<rparr>)
         = three_store(index_file ''idx'' \<mapsto>
             IndexFile \<lparr>ix_d = length (hd [[0, 1 :: real]]),
                        ix_xb = map (map f32_round) [[0, 1]]\<rparr>)"
    by blast
  with untexted_run show ?thesis by simp
qed

text \<open>
  Claim C8 as stated does not hold. With the three chunks indexed in \<open>idx\<close>, a run on
  the payload whose chunk has no text fails with \<open>KeyError\<close> and leaves the directory
  with the new index of one vector next to the old three entries of \<open>meta.json\<close>: the
  stored pair is neither replaced as a whole nor left unchanged.
\<close>

theorem index_failure_replaces_index_only:
  "fst (index_mode untexted_chunk ''idx'' three_store) = Inl KeyError
   \<and> three_store (index_file ''idx'') =
       Some (IndexFile \<lparr>ix_d = 2, ix_xb = [[Finite 1, Finite 0], [Finite 0, Finite 1],
                                            [Finite 5, Finite 5]]\<rparr>)
   \<and> snd (index_mode untexted_chunk ''idx'' three_store) (index_file ''idx'') =
       Some (IndexFile \<lparr>ix_d = 2, ix_xb = [[Finite 0, Finite 1]]\<rparr>)
   \<and> three_store (meta_file ''idx'') =
       Some (JsonFile [example_entry ''a'', example_entry ''b'', example_entry ''c''])
   \<and> snd (index_mode untexted_chunk ''idx'' three_store) (meta_file ''idx'') =
       Some (JsonFile [example_entry ''a'', example_entry ''b'', example_entry ''c''])"
  using index_file_neq_meta_file [of "''idx''"]
  by (simp add: untexted_run three_store_files)

subsection \<open>An empty batch\<close>

text \<open>
  Claim C4, as amended. The index mode on a payload with zero chunks fails, and it fails
  before anything is written: the file system is returned as it was. The exception is
  Python's \<open>IndexError\<close>, raised when the dimension is read from the shape \<open>(0,)\<close> of
  the empty array. The script has no error kind of its own for the empty batch.
\<close>

theorem index_empty_batch:
  "index_mode \<lparr>chunks = Some []\<rparr> index_dir files = (Inl IndexError, files)"
  by (simp add: index_mode_def np_array_def astype_float32_def py_getitem_def)

text \<open>
  Claim C4 as stated does not hold: the caller is not told a kind that belongs to the
  empty batch and to no other failure. The exception of the empty batch is the one that
  a query raises when a label has no entry in \<open>meta.json\<close>, the out-of-range lookup.
\<close>

theorem empty_batch_error_is_lookup_error:
  "fst (index_mode \<lparr>chunks = Some []\<rparr> ''idx'' Map.empty) = Inl IndexError
   \<and> query_mode \<lparr>q_embedding = Some [9 / 10, 1 / 10], q_k = Some 2, q_context = Some JNull\<rparr>
        ''idx'' short_meta_store = Inl IndexError"
  by (simp add: index_mode_def short_meta_store_files query_mode_def np_array_def
      astype_float32_def read_index_def json_load_def index_search_def knn_row_def kept_def
      candidates_def f32_round_values scenario_distances FLT_MAX_def py_getitem_def upt_rec)

subsection \<open>The context of a query\<close>

text \<open>
  Claim C10. Two query documents with the same embedding and the same \<open>k\<close>, each with
  a context value, give the same result against the same directory, whatever the two
  context values are: the context is read and never used. (The key has to be present:
  a document without it fails with \<open>KeyError\<close>.)
\<close>

theorem context_noninterference:
  assumes "q_embedding q1 = q_embedding q2" and "q_k q1 = q_k q2"
    and "q_context q1 = Some c1" and "q_context q2 = Some c2"
  shows "query_mode q1 index_dir files = query_mode q2 index_dir files"
  using assms by (simp add: query_mode_def cong: sum.case_cong)

theorem context_noninterference_witness:
  "q_embedding \<lparr>q_embedding = Some [9 / 10, 1 / 10], q_k = Some 2, q_context = Some JNull\<rparr>
     = q_embedding \<lparr>q_embedding = Some [9 / 10, 1 / 10], q_k = Some 2,
                     q_context = Some (JStr ''only b'')\<rparr>
   \<and> q_k \<lparr>q_embedding = Some [9 / 10, 1 / 10], q_k = Some 2, q_context = Some JNull\<rparr>
     = q_k \<lparr>q_embedding = Some [9 / 10, 1 / 10], q_k = Some 2,
             q_context = Some (JStr ''only b'')\<rparr>
   \<and> query_mode \<lparr>q_embedding = Some [9 / 10, 1 / 10], q_k = Some 2, q_context = Some JNull\<rparr>
        ''idx'' three_store
     = query_mode \<lparr>q_embedding = Some [9 / 10, 1 / 10], q_k = Some 2,
                    q_context = Some (JStr ''only b'')\<rparr> ''idx'' three_store"
  using context_noninterference
    [of "\<lparr>q_embedding = Some [9 / 10, 1 / 10], q_k = Some 2, q_context = Some JNull\<rparr>"
        "\<lparr>q_embedding = Some [9 / 10, 1 / 10], q_k = Some 2,
          q_context = Some (JStr ''only b'')\<rparr>"
        JNull "JStr ''only b''" "''idx''" three_store]
  by simp

subsection \<open>Vectors of the wrong length\<close>

text \<open>
  Claim C6, as amended. The index mode fails when two embeddings of the batch have
  different lengths: the array cannot be built, the exception is Python's
  \<open>ValueError\<close>, and nothing is written. The query mode fails when the length of the
  query embedding is not the dimension of the stored index: the search asserts the
  dimension, the exception is Python's \<open>AssertionError\<close>. In both cases the documents
  have all their keys, and for the query the index file can be read. The script has no
  error kind of its own for a dimension mismatch.
\<close>

theorem dimension_mismatch:
  "(chunks data = Some cs \<and> map embedding cs = map Some es
      \<and> u \<in> set es \<and> v \<in> set es \<and> length u \<noteq> length v
      \<longrightarrow> index_mode data index_dir files = (Inl ValueError, files))
   \<and> (q_embedding query_json = Some emb \<and> q_k query_json = Some k
        \<and> q_context query_json = Some ctx
        \<and> read_index (index_file index_dir) files = Inr ix \<and> length emb \<noteq> ix_d ix
      \<longrightarrow> query_mode query_json index_dir files = Inl AssertionError)"
proof (intro conjI impI)
  assume a: "chunks data = Some cs \<and> map embedding cs = map Some es
      \<and> u \<in> set es \<and> v \<in> set es \<and> length u \<noteq> length v"
  then have c: "comprehension (\<lambda>c. dict_get (embedding c)) cs = Inr es"
    by (simp add: comprehension_dict_get_iff)
  have "\<not> list_all (\<lambda>w. length w = length (hd es)) es"
  proof
    assume "list_all (\<lambda>w. length w = length (hd es)) es"
    with a have "length u = length (hd es)" "length v = length (hd es)"
      by (simp_all add: list_all_iff)
    with a show False by simp
  qed
  moreover from a have "es \<noteq> []" by auto
  ultimately have "np_array es = Inl ValueError"
    by (cases es) (auto simp: np_array_def)
  with a c show "index_mode data index_dir files = (Inl ValueError, files)"
    by (simp add: index_mode_def)
next
  assume "q_embedding query_json = Some emb \<and> q_k query_json = Some k
        \<and> q_context query_json = Some ctx
        \<and> read_index (index_file index_dir) files = Inr ix \<and> length emb \<noteq> ix_d ix"
  then show "query_mode query_json index_dir files = Inl AssertionError"
    by (simp add: query_mode_def np_array_single astype_float32_def index_search_def)
qed

theorem dimension_mismatch_witness:
  "length [1, 0 :: real] \<noteq> length [1 :: real]
   \<and> index_mode ragged_chunks ''idx'' three_store = (Inl ValueError, three_store)
   \<and> length [1, 2, 3 :: real] \<noteq>
       ix_d \<lparr>ix_d = 2, ix_xb = [[Finite 1, Finite 0], [Finite 0, Finite 1],
                                  [Finite 5, Finite 5]]\<rparr>
   \<and> query_mode \<lparr>q_embedding = Some [1, 2, 3], q_k = Some 2, q_context = Some JNull\<rparr>
        ''idx'' three_store = Inl AssertionError"
proof -
  let ?cs = "[example_chunk [1, 0] ''a'', example_chunk [1] ''b'']"
  let ?q = "\<lparr>q_embedding = Some [1, 2, 3], q_k = Some 2, q_context = Some JNull\<rparr>"
  let ?ix = "\<lparr>ix_d = 2, ix_xb = [[Finite 1, Finite 0], [Finite 0, Finite 1],
                                  [Finite 5, Finite 5]]\<rparr>"
  have a: "chunks ragged_chunks = Some ?cs \<and> map embedding ?cs = map Some [[1, 0], [1]]
      \<and> [1, 0] \<in> set [[1, 0], [1 :: real]] \<and> [1] \<in> set [[1, 0], [1 :: real]]
      \<and> length [1, 0 :: real] \<noteq> length [1 :: real]"
    by (simp add: ragged_chunks_def example_chunk_def)
  have b: "q_embedding ?q = Some [1, 2, 3] \<and> q_k ?q = Some 2 \<and> q_context ?q = Some JNull
        \<and> read_index (index_file ''idx'') three_store = Inr ?ix
        \<and> length [1, 2, 3 :: real] \<noteq> ix_d ?ix"
    by (simp add: read_index_def three_store_files)
  from dimension_mismatch
    [of ragged_chunks ?cs "[[1, 0], [1]]" "[1, 0]" "[1]" "''idx''" three_store ?q
        "[1, 2, 3]" 2 JNull ?ix] a b
  show ?thesis by simp
qed

text \<open>
  Claim C6 as stated does not hold: the two failures do not share one kind that is
  theirs alone. A batch of different lengths fails with \<open>ValueError\<close>, a query of the
  wrong length with \<open>AssertionError\<close>, and a query of the right length with \<open>k = 0\<close>
  fails with that same \<open>AssertionError\<close>.
\<close>

theorem dimension_errors_differ_and_are_shared:
  "fst (index_mode ragged_chunks ''idx'' three_store) = Inl ValueError
   \<and> query_mode \<lparr>q_embedding = Some [1, 2, 3], q_k = Some 2, q_context = Some JNull\<rparr>
        ''idx'' three_store = Inl AssertionError
   \<and> query_mode \<lparr>q_embedding = Some [9 / 10, 1 / 10], q_k = Some 0, q_context = Some JNull\<rparr>
        ''idx'' three_store = Inl AssertionError"
  by (simp add: ragged_chunks_def example_chunk_def index_mode_def np_array_def
      three_store_files query_mode_def astype_float32_def read_index_def index_search_def)

subsection \<open>Search for more results than vectors\<close>

lemma comprehension_all_Inr:
  "(\<And>x. x \<in> set xs \<Longrightarrow> f x = Inr (g x)) \<Longrightarrow> comprehension f xs = Inr (map g xs)"
  by (simp add: comprehension_Inr_iff)

lemma length_kept_le: "length (kept xb q) \<le> length xb"
  by (simp add: length_kept)

lemma knn_row_label_range:
  assumes "p \<in> set (map fst (knn_row xb k q))"
  shows "- 1 \<le> p \<and> p < int (length xb)"
proof -
  from assms obtain r where "(p, r) \<in> set (knn_row xb k q)" by auto
  then have "(p, r) \<in> set (kept xb q) \<or> p = - 1"
    by (auto simp: knn_row_def Let_def dest: in_set_takeD)
  then show ?thesis by (auto simp: in_kept)
qed

lemma knn_row_beyond_label:
  assumes "length xb \<le> j" and "j < k"
  shows "fst (knn_row xb k q ! j) = - 1"
proof -
  have m: "length (kept xb q) \<le> j" using assms(1) length_kept_le [of xb q] by simp
  then have "length (kept xb q) \<le> k" using assms(2) by simp
  then show ?thesis
    using m assms(2) by (simp add: knn_row_beyond nth_append)
qed

lemma query_mode_beyond:
  assumes q: "q_embedding query_json = Some emb" "q_k query_json = Some k"
      "q_context query_json = Some ctx"
    and ix: "read_index (index_file index_dir) files = Inr ix"
    and meta: "json_load (meta_file index_dir) files = Inr meta"
    and aligned: "length meta = ntotal ix" and n: "0 < ntotal ix"
    and k: "int (ntotal ix) < k" and k60: "k < 2 ^ 60" and d: "length emb = ix_d ix"
  shows "\<exists>out. query_mode query_json index_dir files = Inr out \<and> length out = nat k
           \<and> (\<forall>j. ntotal ix \<le> j \<and> j < nat k \<longrightarrow> out ! j = last meta)"
proof -
  let ?n = "length (ix_xb ix)"
  let ?v = "map f32_round emb"
  let ?row = "knn_row (ix_xb ix) (nat k) ?v"
  let ?I0 = "map fst ?row"
  let ?g = "\<lambda>i. meta ! nat (if i < 0 then i + int (length meta) else i)"
  have len: "length meta = ?n" "0 < ?n" "?n < nat k"
    using aligned n k by (simp_all add: ntotal_def)
  have k0: "0 < k" using k by simp
  have s: "index_search ix \<lparr>shape = [1, length emb], rows = [?v]\<rparr> k =
             Inr ([map snd ?row], [?I0])"
    by (rule index_search_single [OF d k0 k60])
  have each: "py_getitem meta i = Inr (?g i)" if "i \<in> set ?I0" for i
  proof -
    from knn_row_label_range [OF that] len
    have r: "- 1 \<le> i" "i < int (length meta)" by simp_all
    have n1: "1 \<le> int (length meta)" using len by (cases meta) simp_all
    have "0 \<le> (if i < 0 then i + int (length meta) else i)
        \<and> (if i < 0 then i + int (length meta) else i) < int (length meta)"
      using r n1 by (cases "i < 0") simp_all
    then show ?thesis by (simp add: py_getitem_def Let_def)
  qed
  have c: "comprehension (py_getitem meta) ?I0 = Inr (map ?g ?I0)"
    by (rule comprehension_all_Inr) (rule each)
  have res: "query_mode query_json index_dir files = Inr (map ?g ?I0)"
    using q ix meta s c
    by (simp add: query_mode_def np_array_single astype_float32_def py_getitem_def)
  have l: "length (map ?g ?I0) = nat k"
    by (simp add: length_knn_row)
  have pad: "map ?g ?I0 ! j = last meta" if "?n \<le> j" "j < nat k" for j
  proof -
    have "?I0 ! j = - 1"
      using that by (simp add: knn_row_beyond_label length_knn_row)
    moreover have "j < length ?I0" using that by (simp add: length_knn_row)
    ultimately have "map ?g ?I0 ! j = meta ! nat (int (length meta) - 1)"
      by simp
    also have "\<dots> = meta ! (length meta - 1)"
      by (simp add: nat_diff_distrib')
    also have "\<dots> = last meta"
    proof -
      have "meta \<noteq> []" using len by auto
      then show ?thesis by (simp add: last_conv_nth)
    qed
    finally show ?thesis .
  qed
  from res l pad show ?thesis by (auto simp: ntotal_def)
qed

text \<open>
  Claim C1 asks for exactly \<open>n\<close> results when \<open>k > n\<close>. The script prints \<open>k\<close>
  entries: the search fills the label row with \<open>-1\<close>, and \<open>meta[-1]\<close> is the last
  entry of the list. With the three chunks of the scenario indexed and \<open>k = 5\<close> the
  output is the entries of \<open>a\<close>, \<open>b\<close>, \<open>c\<close> followed by the entry of \<open>c\<close> twice more.
  The lemma \<open>query_mode_beyond\<close> above shows the same for every aligned store and
  every \<open>k\<close> with \<open>n < k < 2 ^ 60\<close>.
\<close>

theorem query_beyond_store_size:
  "query_mode \<lparr>q_embedding = Some [9 / 10, 1 / 10], q_k = Some 5, q_context = Some JNull\<rparr>
      ''idx'' (snd (index_mode three_chunks ''idx'' Map.empty))
     = Inr [example_entry ''a'', example_entry ''b'', example_entry ''c'',
            example_entry ''c'', example_entry ''c'']"
  unfolding three_chunks_run
  by (simp add: three_store_files query_mode_def np_array_def astype_float32_def
      read_index_def json_load_def index_search_def knn_row_def kept_def candidates_def
      f32_round_values scenario_distances FLT_MAX_def py_getitem_def upt_rec eval_nat_numeral)

subsection \<open>Lookup at a negative position\<close>

text \<open>
  Claim C5 asks that a lookup at a negative position fails. The lookup of the query
  mode is Python's list indexing, which counts a negative position from the end: in a
  list of two entries, position \<open>-1\<close> yields the second entry. By
  \<open>py_getitem_IndexError_iff\<close> the lookup fails exactly when the position is at
  least the length or below its negation.
\<close>

theorem negative_position_yields_record:
  "py_getitem [example_entry ''a'', example_entry ''b''] (- 1) = Inr (example_entry ''b'')"
  by (simp add: py_getitem_def)

end
